theory Spec2Isabelle
  imports Complex_Main
begin

section \<open>SHGScan: automated scanning and capture for spectroheliographs\<close>

text \<open>
  A shallow embedding of \<^verbatim>\<open>src/SHGScan.py\<close>. The class \<^verbatim>\<open>SHGForm\<close> becomes the record
  \<open>form\<close>; each method becomes a function that takes the form and returns it updated.

  Conventions of the model:
  \<^item> Python floats are real numbers: no rounding, no overflow, no \<^verbatim>\<open>inf\<close> or \<^verbatim>\<open>nan\<close>.
  \<^item> Calls into SharpCap (camera, mount, notifications, widgets) are recorded, in order,
    in the field \<open>log\<close>. They are taken to return normally, except inside
    \<^verbatim>\<open>acquireFramehandler\<close>, whose own \<^verbatim>\<open>try/except\<close> makes the failure a path of the source.
  \<^item> \<^verbatim>\<open>print\<close> calls are left out.
  \<^item> What happens outside the acquisition task (frames delivered by the camera, button
    clicks, the readings of the clock) is a list of events. The task meets them in
    order: each call of \<^verbatim>\<open>time.time()\<close> first lets every event before the next clock
    reading happen and then returns that reading. A call that needs a reading the list
    does not hold has not returned: its result is \<open>Blocked\<close>.
\<close>

subsection \<open>Collaborators\<close>

text \<open>\<^verbatim>\<open>Rectangle(x, y, width, height)\<close>\<close>

type_synonym rect = "int \<times> int \<times> int \<times> int"

text \<open>
  A frame, as far as the source looks at it: \<^verbatim>\<open>frame.GetStats().Item1\<close> is \<open>stats_mean\<close>,
  \<^verbatim>\<open>frame.CutROI(r).GetStats().Item1\<close> is \<open>cut_mean r\<close>.
\<close>

record frame =
  stats_mean :: real
  cut_mean :: "rect \<Rightarrow> real"

datatype NotificationStatus = Warning | Error

datatype AxisRate = ForSiderealRate real

type_synonym coords = "real \<times> real"

datatype action =
    MoveAxis int real
  | Sleep real
  | ShowNotification string NotificationStatus
  | PrepareToCapture
  | RunCapture
  | StopCapture
  | SetSelectedRate AxisRate
  | SlewTo "coords option"
  | EnableGo
  | EnableAbort
  | ProgBarValue int
  | ProgBarIncrement int
  | FPSInfo_Text real real real

datatype exn = ValueError | ZeroDivisionError | UnboundLocalError

subsection \<open>The form\<close>

text \<open>
  The attributes of \<^verbatim>\<open>SHGForm\<close> that the methods below read or write, under their own
  names. \<open>sunDecenter\<close> (lower case) is the attribute that line 353 creates.
  \<open>sunWidth_Text\<close> and \<open>cycleSleep_Text\<close> are the texts of the two text boxes.
  \<open>subscribers\<close> counts how many times \<^verbatim>\<open>acquireFramehandler\<close> is attached to the
  camera's \<^verbatim>\<open>FrameCaptured\<close> event, \<open>SelectedRate\<close> is the mount's property of that name,
  \<open>ROI_Width\<close> and \<open>ROI_Height\<close> are the camera's \<^verbatim>\<open>ROI\<close>.
\<close>

record form =
  SlewFactor :: real
  SlewPad :: real
  CycleSleep :: real
  NumCycles :: int
  Bidirectional :: bool
  BumpRate :: int
  BumpSwap :: bool
  AxisToMove :: int
  EdgePassed :: bool
  PositiveSignal :: bool
  LimbThreshold :: real
  FrameInterval :: int
  FrameCount :: int
  ROIX :: int
  ROIY :: int
  FrameHandlingDone :: bool
  SunWidth :: int
  SunDecenter :: real
  sunDecenter :: "int option"
  AmSlewing :: bool
  BumpSlew :: int
  FrameRate :: real
  TaskAbortFlag :: bool
  SavedCoords :: "coords option"
  sunWidth_Text :: string
  cycleSleep_Text :: string
  subscribers :: nat
  SelectedRate :: AxisRate
  ROI_Width :: int
  ROI_Height :: int
  log :: "action list"

definition MAX_BRIGHT :: real where "MAX_BRIGHT = 65535"
definition DEFAULT_SUN_WIDTH :: int where "DEFAULT_SUN_WIDTH = 2300"
definition DEFAULT_CYCLE_SLEEP :: real where "DEFAULT_CYCLE_SLEEP = 1 / 2"
definition DEFAULT_SLEWPAD :: real where "DEFAULT_SLEWPAD = 1 / 2"
definition DEFAULT_THRESHOLD :: real where "DEFAULT_THRESHOLD = 1 / 10"
definition DEFAULT_CYCLES :: int where "DEFAULT_CYCLES = 15"
definition DEFAULT_BIDIRECTIONAL :: bool where "DEFAULT_BIDIRECTIONAL = False"
definition DEFAULT_BUMPSWAP :: bool where "DEFAULT_BUMPSWAP = False"
definition DEFAULT_AXISTOMOVE :: int where "DEFAULT_AXISTOMOVE = 0"

definition say :: "action \<Rightarrow> form \<Rightarrow> form" where
  "say a s = s\<lparr>log := log s @ [a]\<rparr>"

subsection \<open>Dynamic limb-crossing detection\<close>

text \<open>
  \<^verbatim>\<open>acquireFramehandler\<close> (lines 357-375). The argument is the frame of the event, or
  \<open>None\<close> when \<^verbatim>\<open>CutROI\<close> or \<^verbatim>\<open>GetStats\<close> raises on it: then the \<^verbatim>\<open>except\<close> branch runs and
  the counter is not reset.
\<close>

definition acquireFramehandler :: "frame option \<Rightarrow> form \<Rightarrow> form" where
  "acquireFramehandler fr s =
     (let s1 =
        (if FrameCount s = 0 then
           (case fr of
              None \<Rightarrow> s
            | Some f \<Rightarrow>
                (let m = cut_mean f (ROIX s, ROIY s, 100, 100);
                     s2 = (if \<not> PositiveSignal s then s\<lparr>PositiveSignal := (m > LimbThreshold s)\<rparr>
                           else if \<not> EdgePassed s then s\<lparr>EdgePassed := (m < LimbThreshold s)\<rparr>
                           else s)
                 in s2\<lparr>FrameCount := FrameInterval s\<rparr>))
         else s\<lparr>FrameCount := FrameCount s - 1\<rparr>)
      in s1\<lparr>FrameHandlingDone := True\<rparr>)"


subsection \<open>Python built-ins used by the source\<close>

text \<open>\<^verbatim>\<open>int(x)\<close> on a float truncates towards zero.\<close>

definition int_of_float :: "real \<Rightarrow> int" where
  "int_of_float x = (if 0 \<le> x then \<lfloor>x\<rfloor> else \<lceil>x\<rceil>)"

text \<open>\<^verbatim>\<open>math.copysign(x, y)\<close>: the magnitude of \<open>x\<close> with the sign of \<open>y\<close>.\<close>

definition copysign :: "real \<Rightarrow> real \<Rightarrow> real" where
  "copysign x y = (if y < 0 then - \<bar>x\<bar> else \<bar>x\<bar>)"

text \<open>\<^verbatim>\<open>time.sleep(d)\<close> raises \<^verbatim>\<open>ValueError\<close> on a negative length.\<close>

definition sleep :: "real \<Rightarrow> form \<Rightarrow> exn + form" where
  "sleep d s = (if d < 0 then Inl ValueError else Inr (say (Sleep d) s))"

definition is_digit :: "char \<Rightarrow> bool" where
  "is_digit c = (48 \<le> (of_char c :: nat) \<and> (of_char c :: nat) \<le> 57)"

definition is_space :: "char \<Rightarrow> bool" where
  "is_space c = List.member [9, 10, 11, 12, 13, 28, 29, 30, 31, 32 :: nat] (of_char c)"

definition digit_val :: "char \<Rightarrow> nat" where
  "digit_val c = of_char c - 48"

definition nat_of_digits :: "string \<Rightarrow> nat" where
  "nat_of_digits ds = foldl (\<lambda>n c. 10 * n + digit_val c) 0 ds"

definition strip :: "string \<Rightarrow> string" where
  "strip s = rev (dropWhile is_space (rev (dropWhile is_space s)))"

fun split_sign :: "string \<Rightarrow> bool \<times> string" where
  "split_sign (c # cs) =
     (if c = CHR ''-'' then (True, cs) else if c = CHR ''+'' then (False, cs) else (False, c # cs))"
| "split_sign [] = (False, [])"

text \<open>
  \<^verbatim>\<open>int(text)\<close> and \<^verbatim>\<open>float(text)\<close> on a string; \<open>None\<close> is \<^verbatim>\<open>ValueError\<close>. Decimal
  notation with an optional sign, surrounding white space and, for floats, a fraction
  and an exponent. Digit grouping with underscores and the words \<^verbatim>\<open>inf\<close> and \<^verbatim>\<open>nan\<close> are
  not covered: the model gives \<open>None\<close> on them.
\<close>

definition py_int :: "string \<Rightarrow> int option" where
  "py_int s =
     (let (neg, r) = split_sign (strip s)
      in if r \<noteq> [] \<and> list_all is_digit r
         then Some (if neg then - int (nat_of_digits r) else int (nat_of_digits r))
         else None)"

definition py_exponent :: "string \<Rightarrow> int option" where
  "py_exponent r =
     (case r of
        [] \<Rightarrow> Some 0
      | c # r' \<Rightarrow>
          if c = CHR ''e'' \<or> c = CHR ''E'' then
            (let (neg, ds) = split_sign r'
             in if ds \<noteq> [] \<and> list_all is_digit ds
                then Some (if neg then - int (nat_of_digits ds) else int (nat_of_digits ds))
                else None)
          else None)"

definition scale10 :: "real \<Rightarrow> int \<Rightarrow> real" where
  "scale10 m e = (if 0 \<le> e then m * 10 ^ nat e else m / 10 ^ nat (- e))"

definition py_float :: "string \<Rightarrow> real option" where
  "py_float s =
     (let (neg, r) = split_sign (strip s);
          ip = takeWhile is_digit r;
          r1 = dropWhile is_digit r;
          fp = (case r1 of [] \<Rightarrow> [] | c # r' \<Rightarrow> if c = CHR ''.'' then takeWhile is_digit r' else []);
          r2 = (case r1 of [] \<Rightarrow> [] | c # r' \<Rightarrow> if c = CHR ''.'' then dropWhile is_digit r' else r1)
      in if ip = [] \<and> fp = [] then None
         else (case py_exponent r2 of
                 None \<Rightarrow> None
               | Some e \<Rightarrow>
                   (let m = real (nat_of_digits ip) + real (nat_of_digits fp) / 10 ^ length fp;
                        v = scale10 m e
                    in Some (if neg then - v else v))))"

subsection \<open>Events and the clock\<close>

text \<open>
  \<^verbatim>\<open>DoAbort\<close> (lines 539-540) and the bump buttons (lines 378-382, 554-584) run on the
  user-interface thread.
\<close>

definition DoAbort :: "form \<Rightarrow> form" where
  "DoAbort s = s\<lparr>TaskAbortFlag := True\<rparr>"

definition DoBumpSlew :: "form \<Rightarrow> form" where
  "DoBumpSlew s =
     (let s1 = say (MoveAxis \<bar>1 - AxisToMove s\<bar> (of_int (BumpSlew s))) s;
          s2 = say (Sleep (1 / 4)) s1;
          s3 = say (MoveAxis \<bar>1 - AxisToMove s\<bar> 0) s2
      in s3\<lparr>BumpSlew := 0\<rparr>)"

definition bump_request :: "int \<Rightarrow> form \<Rightarrow> form" where
  "bump_request r s =
     (let s1 = s\<lparr>BumpSlew := r\<rparr>;
          s2 = (if BumpSwap s1 then s1\<lparr>BumpSlew := BumpSlew s1 * - 1\<rparr> else s1)
      in if \<not> AmSlewing s2 then DoBumpSlew s2 else s2)"

definition DoBumpL :: "form \<Rightarrow> form" where
  "DoBumpL s = bump_request (- BumpRate s) s"

definition DoBumpLFast :: "form \<Rightarrow> form" where
  "DoBumpLFast s = bump_request (- 2 * BumpRate s) s"

definition DoBumpR :: "form \<Rightarrow> form" where
  "DoBumpR s = bump_request (BumpRate s) s"

definition DoBumpRFast :: "form \<Rightarrow> form" where
  "DoBumpRFast s = bump_request (2 * BumpRate s) s"

datatype event =
    FrameCaptured "frame option"
  | AbortClick
  | BumpLClick
  | BumpLFastClick
  | BumpRClick
  | BumpRFastClick
  | Clock real

text \<open>A captured frame runs the handler once for each time it is attached.\<close>

fun happen :: "event \<Rightarrow> form \<Rightarrow> form" where
  "happen (FrameCaptured fr) s = (acquireFramehandler fr ^^ subscribers s) s"
| "happen AbortClick s = DoAbort s"
| "happen BumpLClick s = DoBumpL s"
| "happen BumpLFastClick s = DoBumpLFast s"
| "happen BumpRClick s = DoBumpR s"
| "happen BumpRFastClick s = DoBumpRFast s"
| "happen (Clock t) s = s"

text \<open>\<^verbatim>\<open>time.time()\<close>\<close>

fun time_time :: "event list \<Rightarrow> form \<Rightarrow> (real \<times> event list \<times> form) option" where
  "time_time [] s = None"
| "time_time (Clock t # es) s = Some (t, es, s)"
| "time_time (e # es) s = time_time es (happen e s)"

datatype 'a outcome = Returns 'a "event list" form | Raises exn form | Blocked


subsection \<open>Slewing past the limb\<close>

text \<open>
  \<^verbatim>\<open>SlewPastLimb\<close> (lines 388-424), in parts: the code after the loop (lines 414-424),
  the loop (lines 402-412), the resets and the subscription before it (lines 389-392
  and 397), and the whole.
  The value of \<^verbatim>\<open>math.copysign(pad_rate, rate)\<close> on line 394 is computed and dropped, so
  \<open>pad_rate\<close> stays \<^verbatim>\<open>self.SlewFactor\<close>.
\<close>

definition SlewPastLimb_finish :: "real \<Rightarrow> event list \<Rightarrow> form \<Rightarrow> bool outcome" where
  "SlewPastLimb_finish pad_rate es s =
     (let s1 = s\<lparr>subscribers := subscribers s - 1\<rparr>;
          s2 = say (MoveAxis (AxisToMove s1) pad_rate) s1;
          padded = (if EdgePassed s1 then
                      (case sleep (SlewPad s2) s2 of
                         Inl e \<Rightarrow> Inl (e, s2)
                       | Inr s3 \<Rightarrow> Inr (say (MoveAxis (AxisToMove s3) 0) s3))
                    else Inr s1)
      in case padded of
           Inl (e, s') \<Rightarrow> Raises e s'
         | Inr s4 \<Rightarrow>
             (let s5 = (if BumpSlew s4 \<noteq> 0 then DoBumpSlew s4 else s4);
                  s6 = s5\<lparr>AmSlewing := False\<rparr>
              in Returns (EdgePassed s6) es s6))"

text \<open>
  Lines 407-411. The sleep cannot raise: its length is the integer part of a number
  above 30.
\<close>

definition limb_timeout :: "real \<Rightarrow> real \<Rightarrow> form \<Rightarrow> form" where
  "limb_timeout rate elapsed s =
     (let s1 = say (ShowNotification
                 (CHR 0x0D # ''*** Limb passage not detected within 30 seconds - repositioning mount ***'')
                 Error) s;
          s2 = say (MoveAxis (AxisToMove s1) 0) s1;
          s3 = say (MoveAxis (AxisToMove s2) (- rate)) s2;
          s4 = say (Sleep (of_int (int_of_float elapsed))) s3
      in say (MoveAxis (AxisToMove s4) 0) s4)"

function SlewPastLimb_wait :: "real \<Rightarrow> real \<Rightarrow> real \<Rightarrow> event list \<Rightarrow> form \<Rightarrow> bool outcome" where
  "SlewPastLimb_wait rate pad_rate startTime es s =
     (if EdgePassed s then SlewPastLimb_finish pad_rate es s
      else (case time_time es s of
              None \<Rightarrow> Blocked
            | Some (endTime, es', s') \<Rightarrow>
                if TaskAbortFlag s' then Returns False es' s'
                else if endTime - startTime > 30 then
                  SlewPastLimb_finish pad_rate es' (limb_timeout rate (endTime - startTime) s')
                else SlewPastLimb_wait rate pad_rate startTime es' s'))"
  by pat_completeness auto
termination
proof -
  have shorter: "length es' < length es" if "time_time es s = Some (t, es', s')"
    for es s t es' s'
    using that by (induction es s rule: time_time.induct) auto
  show ?thesis
    by (relation "measure (\<lambda>(rate, pad_rate, startTime, es, s). length es)")
       (auto dest: shorter)
qed

definition SlewPastLimb_begin :: "form \<Rightarrow> form" where
  "SlewPastLimb_begin s =
     (let s1 = s\<lparr>AmSlewing := True, EdgePassed := False, PositiveSignal := False,
                 FrameCount := FrameInterval s\<rparr>
      in s1\<lparr>subscribers := Suc (subscribers s1)\<rparr>)"

definition SlewPastLimb :: "real \<Rightarrow> event list \<Rightarrow> form \<Rightarrow> bool outcome" where
  "SlewPastLimb rate es s =
     (let pad_rate = SlewFactor s;
          dropped = copysign pad_rate rate
      in case time_time es (SlewPastLimb_begin s) of
           None \<Rightarrow> Blocked
         | Some (startTime, es', s1) \<Rightarrow>
             SlewPastLimb_wait rate pad_rate startTime es' (say (MoveAxis (AxisToMove s1) rate) s1))"

subsection \<open>The acquisition run\<close>

definition enableGo :: "form \<Rightarrow> form" where
  "enableGo s = say EnableGo s"

definition enableAbort :: "form \<Rightarrow> form" where
  "enableAbort s = say EnableAbort s"

text \<open>\<^verbatim>\<open>RestorePos\<close> (lines 530-534) and \<^verbatim>\<open>SavePos\<close> (lines 536-537); \<open>c\<close> is what the mount's
  \<^verbatim>\<open>Coordinates\<close> property reads.\<close>

definition RestorePos :: "form \<Rightarrow> form" where
  "RestorePos s =
     (let saveRate = SelectedRate s;
          s1 = say (SetSelectedRate (ForSiderealRate 32)) (s\<lparr>SelectedRate := ForSiderealRate 32\<rparr>);
          s2 = say (SlewTo (SavedCoords s1)) s1
      in say (SetSelectedRate saveRate) (s2\<lparr>SelectedRate := saveRate\<rparr>))"

definition SavePos :: "coords \<Rightarrow> form \<Rightarrow> form" where
  "SavePos c s = s\<lparr>SavedCoords := Some c\<rparr>"

text \<open>\<^verbatim>\<open>DoAbortTask\<close> (lines 542-550)\<close>

definition DoAbortTask :: "form \<Rightarrow> form" where
  "DoAbortTask s =
     (let s1 = say StopCapture s;
          s2 = say (MoveAxis (AxisToMove s1) 0) s1;
          s3 = RestorePos s2;
          s4 = s3\<lparr>AmSlewing := False, BumpSlew := - 1, TaskAbortFlag := False\<rparr>
      in enableGo s4)"

text \<open>Lines 496-511: the way back, with a capture or at eight times the rate.\<close>

definition DoGo_back :: "event list \<Rightarrow> form \<Rightarrow> bool outcome" where
  "DoGo_back es s =
     (if Bidirectional s then
        (case SlewPastLimb (- SlewFactor s) es (say RunCapture (say PrepareToCapture s)) of
           Returns b es' s' \<Rightarrow> Returns b es' (say StopCapture s')
         | Raises e s' \<Rightarrow> Raises e s'
         | Blocked \<Rightarrow> Blocked)
      else SlewPastLimb (- 8 * SlewFactor s) es s)"

text \<open>
  The loop of lines 477-520, for the cycles still to run. \<open>st\<close> and \<open>et\<close> are the local
  variables \<^verbatim>\<open>startTime\<close> and \<^verbatim>\<open>endTime\<close>, \<open>None\<close> while unassigned. The result value
  \<open>None\<close> says that \<^verbatim>\<open>DoGo\<close> has returned from inside the loop, after \<^verbatim>\<open>DoAbortTask\<close>;
  \<open>Some (st, et)\<close> says that the loop has ended.
\<close>

fun DoGo_loop ::
  "nat \<Rightarrow> real option \<Rightarrow> real option \<Rightarrow> event list \<Rightarrow> form
     \<Rightarrow> (real option \<times> real option) option outcome" where
  "DoGo_loop 0 st et es s = Returns (Some (st, et)) es s"
| "DoGo_loop (Suc n) st et es s =
     (case time_time es s of
        None \<Rightarrow> Blocked
      | Some (startTime, es1, s1) \<Rightarrow>
          (case SlewPastLimb (SlewFactor s1) es1 (say RunCapture (say PrepareToCapture s1)) of
             Blocked \<Rightarrow> Blocked
           | Raises e s' \<Rightarrow> Raises e s'
           | Returns b es2 s2 \<Rightarrow>
               (case time_time es2 (say StopCapture s2) of
                  None \<Rightarrow> Blocked
                | Some (endTime, es3, s3) \<Rightarrow>
                    if TaskAbortFlag s3 then Returns None es3 (DoAbortTask s3)
                    else
                      (case DoGo_back es3 s3 of
                         Blocked \<Rightarrow> Blocked
                       | Raises e s' \<Rightarrow> Raises e s'
                       | Returns b' es4 s4 \<Rightarrow>
                           if TaskAbortFlag s4 then Returns None es4 (DoAbortTask s4)
                           else
                             (case py_float (cycleSleep_Text s4) of
                                None \<Rightarrow> Raises ValueError s4
                              | Some d \<Rightarrow>
                                  (case sleep d s4 of
                                     Inl e \<Rightarrow> Raises e s4
                                   | Inr s5 \<Rightarrow>
                                       DoGo_loop n (Some startTime) (Some endTime) es4
                                         (say (ProgBarIncrement 1) s5)))))))"

text \<open>Lines 524-528: the reposition over the centre of the sun.\<close>

datatype finished = AllCycles | AbortHandled

definition DoGo_reposition ::
  "real option \<Rightarrow> real option \<Rightarrow> event list \<Rightarrow> form \<Rightarrow> finished outcome" where
  "DoGo_reposition st et es s =
     (let s1 = say (MoveAxis (AxisToMove s) (SlewFactor s)) s
      in case et of
           None \<Rightarrow> Raises UnboundLocalError s1
         | Some endTime \<Rightarrow>
             (case st of
                None \<Rightarrow> Raises UnboundLocalError s1
              | Some startTime \<Rightarrow>
                  (case sleep ((endTime - startTime) / 2) s1 of
                     Inl e \<Rightarrow> Raises e s1
                   | Inr s2 \<Rightarrow> Returns AllCycles es (enableGo (say (MoveAxis (AxisToMove s2) 0) s2)))))"

text \<open>\<^verbatim>\<open>DoGo\<close> (lines 464-528) and \<^verbatim>\<open>asyncDoGo\<close> (lines 458-462)\<close>

definition DoGo :: "coords \<Rightarrow> event list \<Rightarrow> form \<Rightarrow> finished outcome" where
  "DoGo c es s =
     (case SlewPastLimb (- SlewFactor (SavePos c s)) es (SavePos c s) of
        Blocked \<Rightarrow> Blocked
      | Raises e s' \<Rightarrow> Raises e s'
      | Returns b es1 s1 \<Rightarrow>
          if TaskAbortFlag s1 then Returns AbortHandled es1 (DoAbortTask s1)
          else
            (case DoGo_loop (nat (NumCycles s1)) None None es1 (say (ProgBarValue 1) s1) of
               Blocked \<Rightarrow> Blocked
             | Raises e s' \<Rightarrow> Raises e s'
             | Returns None es2 s2 \<Rightarrow> Returns AbortHandled es2 s2
             | Returns (Some (st, et)) es2 s2 \<Rightarrow> DoGo_reposition st et es2 s2))"

definition asyncDoGo :: "coords \<Rightarrow> event list \<Rightarrow> form \<Rightarrow> finished outcome" where
  "asyncDoGo c es s = DoGo c es ((enableAbort s)\<lparr>TaskAbortFlag := False\<rparr>)"


subsection \<open>Measuring the sun\<close>

text \<open>
  The two scans of \<^verbatim>\<open>measureSunFramehandler\<close> (lines 329-346). Each returns the edge it
  leaves in \<^verbatim>\<open>startEdge\<close> or \<^verbatim>\<open>endEdge\<close>: the position of the first window whose mean is not
  below the threshold, or \<open>-1\<close>. The scan from the left starts at \<open>0\<close> and only grows, so
  an edge it finds is never negative and ends the loop.
\<close>

function scan_start :: "frame \<Rightarrow> real \<Rightarrow> int \<Rightarrow> int \<Rightarrow> int" where
  "scan_start f thr imgWidth x =
     (if x < imgWidth then
        (if cut_mean f (x, 0, 10, 100) < thr then scan_start f thr imgWidth (x + 1) else x)
      else - 1)"
  by pat_completeness auto
termination
  by (relation "measure (\<lambda>(f, thr, imgWidth, x). nat (imgWidth - x))") auto

function scan_end :: "frame \<Rightarrow> real \<Rightarrow> int \<Rightarrow> int" where
  "scan_end f thr x =
     (if 0 \<le> x then
        (if cut_mean f (x, 0, 10, 100) < thr then scan_end f thr (x - 1) else x)
      else - 1)"
  by pat_completeness auto
termination
  by (relation "measure (\<lambda>(f, thr, x). nat (x + 1))") auto

text \<open>\<^verbatim>\<open>measureSunFramehandler\<close> (lines 319-354)\<close>

definition measureSunFramehandler :: "frame \<Rightarrow> form \<Rightarrow> form" where
  "measureSunFramehandler frame0 s =
     (if stats_mean frame0 < LimbThreshold s then
        (say (ShowNotification ''*** Sun is not in frame ***'' Error) s)\<lparr>FrameHandlingDone := True\<rparr>
      else
        (let imgWidth = ROI_Width s - 10;
             startEdge = scan_start frame0 (LimbThreshold s) imgWidth 0;
             endEdge = scan_end frame0 (LimbThreshold s) imgWidth;
             s1 = (if startEdge > 0 \<and> endEdge > 0 then
                     s\<lparr>SunWidth := endEdge - startEdge,
                       SunDecenter := (real_of_int (endEdge - startEdge) / 2 + real_of_int startEdge)
                                        - real_of_int (imgWidth + 10) / 2\<rparr>
                   else s\<lparr>SunWidth := DEFAULT_SUN_WIDTH, sunDecenter := Some 0\<rparr>)
         in s1\<lparr>FrameHandlingDone := True\<rparr>))"

subsection \<open>Scan parameters\<close>


subsection \<open>Settings\<close>

text \<open>String formatting: \<^verbatim>\<open>str\<close> of an integer and of a truth value, and the format \<^verbatim>\<open>.2f\<close>,
  which rounds to the nearest hundredth, halves to the even one.\<close>

definition digit_char :: "nat \<Rightarrow> char" where
  "digit_char d = char_of (48 + d)"

fun digit_string :: "nat \<Rightarrow> string" where
  "digit_string n =
     (if n < 10 then [digit_char n] else digit_string (n div 10) @ [digit_char (n mod 10)])"

definition str_int :: "int \<Rightarrow> string" where
  "str_int i = (if i < 0 then CHR ''-'' # digit_string (nat (- i)) else digit_string (nat i))"

definition str_bool :: "bool \<Rightarrow> string" where
  "str_bool b = (if b then ''True'' else ''False'')"

definition round_half_even :: "real \<Rightarrow> int" where
  "round_half_even y =
     (let f = \<lfloor>y\<rfloor>; d = y - real_of_int f
      in if d < 1 / 2 then f else if 1 / 2 < d then f + 1 else if even f then f else f + 1)"

definition fmt_2f :: "real \<Rightarrow> string" where
  "fmt_2f x =
     (let n = nat (round_half_even (\<bar>x\<bar> * 100));
          body = digit_string (n div 100) @ ''.'' @ [digit_char (n mod 100 div 10), digit_char (n mod 10)]
      in if x < 0 then CHR ''-'' # body else body)"

text \<open>
  \<^verbatim>\<open>saveSettings\<close> (lines 142-151): the text written to the settings file. The threshold
  written is the module's \<^verbatim>\<open>DEFAULT_THRESHOLD\<close>.
\<close>

definition saveSettings :: "form \<Rightarrow> string" where
  "saveSettings s =
     ''NumCycles='' @ str_int (NumCycles s) @ [CHR 0x0A] @
     ''SunWidth='' @ str_int (SunWidth s) @ [CHR 0x0A] @
     ''CycleSleep='' @ fmt_2f (CycleSleep s) @ [CHR 0x0A] @
     ''SlewPad='' @ fmt_2f (SlewPad s) @ [CHR 0x0A] @
     ''LimbThreshold='' @ fmt_2f DEFAULT_THRESHOLD @ [CHR 0x0A] @
     ''Bidirectional='' @ str_bool (Bidirectional s) @ [CHR 0x0A] @
     ''BumpSwap='' @ str_bool (BumpSwap s) @ [CHR 0x0A] @
     ''BumpRate='' @ str_int (BumpRate s) @ [CHR 0x0A] @
     ''AxisToMove='' @ str_int (AxisToMove s)"

text \<open>\<^verbatim>\<open>config.split('\n')\<close>\<close>

fun split_lines :: "string \<Rightarrow> string list" where
  "split_lines [] = [[]]"
| "split_lines (c # cs) =
     (if c = CHR 0x0A then [] # split_lines cs
      else (case split_lines cs of [] \<Rightarrow> [[c]] | l # ls \<Rightarrow> (c # l) # ls))"

text \<open>
  \<^verbatim>\<open>re.search("([a-zA-Z]+)=([0-9.a-zA-Z]+)", item)\<close>: the leftmost match and its two groups.
  A match that starts at a letter takes the whole run of letters from there, since the
  key must end right before \<^verbatim>\<open>=\<close>; the value is the longest run that follows.
\<close>

definition is_letter :: "char \<Rightarrow> bool" where
  "is_letter c =
     ((65 \<le> (of_char c :: nat) \<and> (of_char c :: nat) \<le> 90) \<or>
      (97 \<le> (of_char c :: nat) \<and> (of_char c :: nat) \<le> 122))"

definition is_value_char :: "char \<Rightarrow> bool" where
  "is_value_char c = (is_digit c \<or> c = CHR ''.'' \<or> is_letter c)"

definition match_here :: "string \<Rightarrow> (string \<times> string) option" where
  "match_here item =
     (let key = takeWhile is_letter item
      in if key = [] then None
         else (case dropWhile is_letter item of
                 [] \<Rightarrow> None
               | c # r \<Rightarrow>
                   if c = CHR ''='' \<and> takeWhile is_value_char r \<noteq> []
                   then Some (key, takeWhile is_value_char r)
                   else None))"

fun re_search :: "string \<Rightarrow> (string \<times> string) option" where
  "re_search [] = None"
| "re_search (c # cs) =
     (case match_here (c # cs) of Some kv \<Rightarrow> Some kv | None \<Rightarrow> re_search cs)"

text \<open>
  One line of the settings file (lines 109-133); \<open>None\<close> when \<^verbatim>\<open>int\<close> or \<^verbatim>\<open>float\<close> raises.
  Line 124 assigns a variable local to \<^verbatim>\<open>getSettings\<close>: the method has no \<^verbatim>\<open>global\<close>
  statement, so the module's \<^verbatim>\<open>DEFAULT_THRESHOLD\<close> keeps its value.
\<close>

definition load_item :: "string \<Rightarrow> form \<Rightarrow> form option" where
  "load_item item s =
     (case re_search item of
        None \<Rightarrow> Some (say (ShowNotification (''Ignored invalid settings keyword '' @ item) Warning) s)
      | Some (key, val) \<Rightarrow>
          if key = ''NumCycles'' then map_option (\<lambda>n. s\<lparr>NumCycles := n\<rparr>) (py_int val)
          else if key = ''SunWidth'' then map_option (\<lambda>n. s\<lparr>SunWidth := n\<rparr>) (py_int val)
          else if key = ''CycleSleep'' then map_option (\<lambda>x. s\<lparr>CycleSleep := x\<rparr>) (py_float val)
          else if key = ''SlewPad'' then map_option (\<lambda>x. s\<lparr>SlewPad := x\<rparr>) (py_float val)
          else if key = ''LimbThreshold'' then
            map_option (\<lambda>x. s\<lparr>LimbThreshold := MAX_BRIGHT * x\<rparr>) (py_float val)
          else if key = ''Bidirectional'' then Some (s\<lparr>Bidirectional := (val = ''True'')\<rparr>)
          else if key = ''BumpSwap'' then Some (s\<lparr>BumpSwap := (val = ''True'')\<rparr>)
          else if key = ''BumpRate'' then map_option (\<lambda>n. s\<lparr>BumpRate := n\<rparr>) (py_int val)
          else if key = ''AxisToMove'' then map_option (\<lambda>n. s\<lparr>AxisToMove := n\<rparr>) (py_int val)
          else Some s)"

fun load_items :: "string list \<Rightarrow> form \<Rightarrow> bool \<times> form" where
  "load_items [] s = (True, s)"
| "load_items (item # items) s =
     (case load_item item s of None \<Rightarrow> (False, s) | Some s' \<Rightarrow> load_items items s')"

text \<open>
  \<^verbatim>\<open>getSettings\<close> (lines 99-139). The argument is the text of the settings file, \<open>None\<close>
  when there is no file; the result is the form and the text of the file afterwards.
\<close>

definition getSettings :: "string option \<Rightarrow> form \<Rightarrow> form \<times> string option" where
  "getSettings file s =
     (case file of
        Some config \<Rightarrow>
          (case load_items (split_lines config) s of
             (True, s') \<Rightarrow> (s', file)
           | (False, s') \<Rightarrow> (say (ShowNotification ''Error reading settings file'' Error) s', file))
      | None \<Rightarrow> (s, Some (saveSettings s)))"


subsection \<open>A form to run on\<close>

text \<open>
  The class attributes of \<^verbatim>\<open>SHGForm\<close> (lines 51-81) and the two text boxes as \<^verbatim>\<open>setupForm\<close>
  fills them (lines 607 and 612), for a camera with the given \<^verbatim>\<open>ROI\<close> and a mount with
  the given selected rate, before anything has been logged.
\<close>

definition SHGForm :: "int \<Rightarrow> int \<Rightarrow> AxisRate \<Rightarrow> form" where
  "SHGForm w h r =
     \<lparr>SlewFactor = 1, SlewPad = DEFAULT_SLEWPAD, CycleSleep = DEFAULT_CYCLE_SLEEP,
      NumCycles = DEFAULT_CYCLES, Bidirectional = DEFAULT_BIDIRECTIONAL, BumpRate = 8,
      BumpSwap = DEFAULT_BUMPSWAP, AxisToMove = DEFAULT_AXISTOMOVE, EdgePassed = False,
      PositiveSignal = False, LimbThreshold = MAX_BRIGHT * DEFAULT_THRESHOLD,
      FrameInterval = 10, FrameCount = 10, ROIX = 0, ROIY = 0, FrameHandlingDone = False,
      SunWidth = 2300, SunDecenter = 0, sunDecenter = None, AmSlewing = False, BumpSlew = 0,
      FrameRate = - 1, TaskAbortFlag = False, SavedCoords = None,
      sunWidth_Text = ''2300'', cycleSleep_Text = ''0.5'', subscribers = 0,
      SelectedRate = r, ROI_Width = w, ROI_Height = h, log = []\<rparr>"

text \<open>A frame of one brightness everywhere.\<close>

definition flat_frame :: "real \<Rightarrow> frame" where
  "flat_frame m = \<lparr>stats_mean = m, cut_mean = (\<lambda>r. m)\<rparr>"


text \<open>
  A frame given by its pixels, \<open>pix x y\<close> being the brightness in column \<open>x\<close> and row
  \<open>y\<close>: the mean of a rectangle is the sum of its pixels over their number. \<open>band\<close> is
  the picture of one bright band of brightness \<open>B\<close> over the columns from \<open>a\<close> to
  \<open>a + w - 1\<close>, dark elsewhere.
\<close>

definition rect_mean :: "(int \<Rightarrow> int \<Rightarrow> real) \<Rightarrow> rect \<Rightarrow> real" where
  "rect_mean pix r =
     (case r of (x, y, w, h) \<Rightarrow>
        (\<Sum>i = x..<x + w. \<Sum>j = y..<y + h. pix i j) / real_of_int (w * h))"

definition frame_of :: "int \<Rightarrow> int \<Rightarrow> (int \<Rightarrow> int \<Rightarrow> real) \<Rightarrow> frame" where
  "frame_of W H pix = \<lparr>stats_mean = rect_mean pix (0, 0, W, H), cut_mean = rect_mean pix\<rparr>"

definition band :: "int \<Rightarrow> int \<Rightarrow> real \<Rightarrow> int \<Rightarrow> int \<Rightarrow> real" where
  "band a w B x y = (if a \<le> x \<and> x < a + w then B else 0)"

text \<open>The commands that \<^verbatim>\<open>DoBumpSlew\<close> gives the mount when a bump is pending.\<close>

definition pending_bump :: "form \<Rightarrow> action list" where
  "pending_bump s =
     (if BumpSlew s = 0 then []
      else [MoveAxis \<bar>1 - AxisToMove s\<bar> (of_int (BumpSlew s)), Sleep (1 / 4),
            MoveAxis \<bar>1 - AxisToMove s\<bar> 0])"

text \<open>
  The fields that a slew, a capture and the events leave as they are: the settings, the
  saved coordinates and the selected rate of the mount.
\<close>

definition fixed ::
  "form \<Rightarrow> int \<times> coords option \<times> AxisRate \<times> int \<times> real \<times> real \<times> bool \<times> string" where
  "fixed s =
     (NumCycles s, SavedCoords s, SelectedRate s, AxisToMove s, SlewFactor s, SlewPad s,
      Bidirectional s, cycleSleep_Text s)"


section \<open>Properties\<close>

declare SlewPastLimb_wait.simps [simp del] scan_start.simps [simp del] scan_end.simps [simp del]

subsection \<open>What a slew leaves alone\<close>

lemma fixed_say [simp]: "fixed (say a s) = fixed s"
  by (simp add: fixed_def say_def)

lemma fixed_acquire [simp]: "fixed (acquireFramehandler fr s) = fixed s"
  by (simp add: fixed_def acquireFramehandler_def Let_def split: option.splits)

lemma fixed_acquire_pow [simp]: "fixed ((acquireFramehandler fr ^^ n) s) = fixed s"
  by (induction n) simp_all

lemma fixed_DoBumpSlew [simp]: "fixed (DoBumpSlew s) = fixed s"
  by (simp add: DoBumpSlew_def Let_def fixed_def say_def)

lemma fixed_bump_request [simp]: "fixed (bump_request r s) = fixed s"
proof -
  have "fixed (s\<lparr>BumpSlew := k\<rparr>) = fixed s" for k by (simp add: fixed_def)
  then show ?thesis by (simp add: bump_request_def Let_def)
qed

lemma fixed_DoAbort [simp]: "fixed (DoAbort s) = fixed s"
  by (simp add: DoAbort_def fixed_def)

lemma fixed_DoBump [simp]:
  "fixed (DoBumpL s) = fixed s" "fixed (DoBumpLFast s) = fixed s"
  "fixed (DoBumpR s) = fixed s" "fixed (DoBumpRFast s) = fixed s"
  by (simp_all add: DoBumpL_def DoBumpLFast_def DoBumpR_def DoBumpRFast_def)

lemma fixed_happen [simp]: "fixed (happen e s) = fixed s"
  by (cases e) simp_all

lemma fixed_time_time: "time_time es s = Some (t, es', s') \<Longrightarrow> fixed s' = fixed s"
  by (induction es s rule: time_time.induct) auto

lemma fixed_limb_timeout [simp]: "fixed (limb_timeout rate el s) = fixed s"
  by (simp add: limb_timeout_def Let_def)

lemma fixed_finish: "SlewPastLimb_finish p es s = Returns b es' s' \<Longrightarrow> fixed s' = fixed s"
  by (auto simp: SlewPastLimb_finish_def Let_def sleep_def fixed_def say_def DoBumpSlew_def split: if_splits sum.splits)

lemma fixed_wait: "SlewPastLimb_wait rate p st es s = Returns b es' s' \<Longrightarrow> fixed s' = fixed s"
proof (induction rate p st es s rule: SlewPastLimb_wait.induct)
  case (1 rate pad_rate startTime es s)
  show ?case
  proof (cases "EdgePassed s")
    case True
    with "1.prems" show ?thesis
      by (simp add: SlewPastLimb_wait.simps fixed_finish)
  next
    case False
    then obtain endTime es1 s1 where tt: "time_time es s = Some (endTime, es1, s1)"
      using "1.prems" by (auto simp: SlewPastLimb_wait.simps split: option.splits)
    have f1: "fixed s1 = fixed s" using tt by (rule fixed_time_time)
    show ?thesis
    proof (cases "TaskAbortFlag s1")
      case True
      with False tt "1.prems" f1 show ?thesis by (simp add: SlewPastLimb_wait.simps)
    next
      case na: False
      show ?thesis
      proof (cases "endTime - startTime > 30")
        case True
        with False tt na "1.prems" have "SlewPastLimb_finish pad_rate es1 (limb_timeout rate (endTime - startTime) s1) = Returns b es' s'"
          by (simp add: SlewPastLimb_wait.simps)
        from fixed_finish[OF this] f1 show ?thesis by simp
      next
        case nt: False
        with False tt na "1.prems" have "SlewPastLimb_wait rate pad_rate startTime es1 s1 = Returns b es' s'"
          by (simp add: SlewPastLimb_wait.simps)
        from "1.IH"[OF False tt refl refl na nt this] f1 show ?thesis by simp
      qed
    qed
  qed
qed

lemma fixed_SlewPastLimb: "SlewPastLimb rate es s = Returns b es' s' \<Longrightarrow> fixed s' = fixed s"
proof -
  have "fixed (SlewPastLimb_begin s) = fixed s"
    by (simp add: SlewPastLimb_begin_def Let_def fixed_def)
  then show "SlewPastLimb rate es s = Returns b es' s' \<Longrightarrow> fixed s' = fixed s"
    by (auto simp: SlewPastLimb_def Let_def split: option.splits dest!: fixed_wait fixed_time_time)
qed


lemma fixed_SavePos: "NumCycles (SavePos c s) = NumCycles s" "SlewFactor (SavePos c s) = SlewFactor s"
  by (simp_all add: SavePos_def)


subsection \<open>Limb-crossing detector\<close>

text \<open>One call of the handler, on the fields the detector lives in.\<close>

lemma acquire_step:
  assumes "cut_mean f (ROIX s, ROIY s, 100, 100) = m"
  shows "FrameCount (acquireFramehandler (Some f) s) =
           (if FrameCount s = 0 then FrameInterval s else FrameCount s - 1)"
    and "PositiveSignal (acquireFramehandler (Some f) s) =
           (if FrameCount s = 0 \<and> \<not> PositiveSignal s then LimbThreshold s < m else PositiveSignal s)"
    and "EdgePassed (acquireFramehandler (Some f) s) =
           (if FrameCount s = 0 \<and> PositiveSignal s \<and> \<not> EdgePassed s then m < LimbThreshold s
            else EdgePassed s)"
    and "FrameInterval (acquireFramehandler (Some f) s) = FrameInterval s"
    and "LimbThreshold (acquireFramehandler (Some f) s) = LimbThreshold s"
    and "ROIX (acquireFramehandler (Some f) s) = ROIX s"
    and "ROIY (acquireFramehandler (Some f) s) = ROIY s"
  using assms by (simp_all add: acquireFramehandler_def Let_def)

text \<open>
  Claim C2: with the frame interval set to 1, the samples below, below, above, above,
  below, below (of the threshold) reach \<open>EdgePassed\<close> at the fifth sample and not before.

  The handler counts \<open>FrameCount\<close> down from \<open>FrameInterval\<close> to 0 and looks at the frame
  on which it finds 0, so with an interval of 1 it looks at every second frame: the
  second, the fourth and the sixth. After each of the first five samples \<open>EdgePassed\<close>
  is still false; the sixth sets it. The form is one that \<^verbatim>\<open>SlewPastLimb\<close> starts the
  detector from: both latches false and \<open>FrameCount = FrameInterval\<close>.
\<close>

theorem limb_detector_interval_1:
  assumes "FrameInterval s = 1" and "FrameCount s = 1"
    and "\<not> PositiveSignal s" and "\<not> EdgePassed s"
    and "cut_mean dark (ROIX s, ROIY s, 100, 100) < LimbThreshold s"
    and "LimbThreshold s < cut_mean bright (ROIX s, ROIY s, 100, 100)"
  shows "list_all
           (\<lambda>n. \<not> EdgePassed (fold acquireFramehandler
                  (take n [Some dark, Some dark, Some bright, Some bright, Some dark, Some dark]) s))
           [0, 1, 2, 3, 4, 5] \<and>
         EdgePassed (fold acquireFramehandler
           [Some dark, Some dark, Some bright, Some bright, Some dark, Some dark] s)"
proof -
  define s1 where "s1 = acquireFramehandler (Some dark) s"
  define s2 where "s2 = acquireFramehandler (Some dark) s1"
  define s3 where "s3 = acquireFramehandler (Some bright) s2"
  define s4 where "s4 = acquireFramehandler (Some bright) s3"
  define s5 where "s5 = acquireFramehandler (Some dark) s4"
  define s6 where "s6 = acquireFramehandler (Some dark) s5"
  have k1: "FrameCount s1 = 0" "\<not> PositiveSignal s1" "\<not> EdgePassed s1" "FrameInterval s1 = 1"
    "LimbThreshold s1 = LimbThreshold s" "ROIX s1 = ROIX s" "ROIY s1 = ROIY s"
    unfolding s1_def using assms by (simp_all add: acquire_step[OF refl])
  have k2: "FrameCount s2 = 1" "\<not> PositiveSignal s2" "\<not> EdgePassed s2" "FrameInterval s2 = 1"
    "LimbThreshold s2 = LimbThreshold s" "ROIX s2 = ROIX s" "ROIY s2 = ROIY s"
    unfolding s2_def using assms k1 by (simp_all add: acquire_step[OF refl])
  have k3: "FrameCount s3 = 0" "\<not> PositiveSignal s3" "\<not> EdgePassed s3" "FrameInterval s3 = 1"
    "LimbThreshold s3 = LimbThreshold s" "ROIX s3 = ROIX s" "ROIY s3 = ROIY s"
    unfolding s3_def using assms k2 by (simp_all add: acquire_step[OF refl])
  have k4: "FrameCount s4 = 1" "PositiveSignal s4" "\<not> EdgePassed s4" "FrameInterval s4 = 1"
    "LimbThreshold s4 = LimbThreshold s" "ROIX s4 = ROIX s" "ROIY s4 = ROIY s"
    unfolding s4_def using assms k3 by (simp_all add: acquire_step[OF refl])
  have k5: "FrameCount s5 = 0" "PositiveSignal s5" "\<not> EdgePassed s5" "FrameInterval s5 = 1"
    "LimbThreshold s5 = LimbThreshold s" "ROIX s5 = ROIX s" "ROIY s5 = ROIY s"
    unfolding s5_def using assms k4 by (simp_all add: acquire_step[OF refl])
  have k6: "EdgePassed s6"
    unfolding s6_def using assms k5 by (simp add: acquire_step[OF refl])
  show ?thesis
    using assms(4) k1(3) k2(3) k3(3) k4(3) k5(3) k6
    by (simp add: s1_def s2_def s3_def s4_def s5_def s6_def)
qed

theorem limb_detector_interval_1_witness:
  "(let dark = Some (flat_frame 0); bright = Some (flat_frame 65535);
        samples = [dark, dark, bright, bright, dark, dark];
        s0 = (SHGForm 1000 1000 (ForSiderealRate 1))\<lparr>FrameInterval := 1, FrameCount := 1\<rparr>
    in list_all (\<lambda>n. \<not> EdgePassed (fold acquireFramehandler (take n samples) s0)) [0, 1, 2, 3, 4, 5] \<and>
       EdgePassed (fold acquireFramehandler samples s0))"
proof -
  let ?s = "(SHGForm 1000 1000 (ForSiderealRate 1))\<lparr>FrameInterval := 1, FrameCount := 1\<rparr>"
  have h: "FrameInterval ?s = 1" "FrameCount ?s = 1" "\<not> PositiveSignal ?s" "\<not> EdgePassed ?s"
    "cut_mean (flat_frame 0) (ROIX ?s, ROIY ?s, 100, 100) < LimbThreshold ?s"
    "LimbThreshold ?s < cut_mean (flat_frame 65535) (ROIX ?s, ROIY ?s, 100, 100)"
    by (simp_all add: SHGForm_def flat_frame_def MAX_BRIGHT_def DEFAULT_THRESHOLD_def)
  show ?thesis
    unfolding Let_def
    by (rule limb_detector_interval_1[OF h])
qed


subsection \<open>Slewing past the limb\<close>




lemma bump_request_fields:
  "EdgePassed (bump_request r s) = EdgePassed s"
  "TaskAbortFlag (bump_request r s) = TaskAbortFlag s"
  "AmSlewing (bump_request r s) = AmSlewing s"
  "subscribers (bump_request r s) = subscribers s"
  "AmSlewing s \<Longrightarrow> log (bump_request r s) = log s"
  by (simp_all add: bump_request_def Let_def DoBumpSlew_def say_def)



lemma acquire_fields:
  "TaskAbortFlag (acquireFramehandler fr s) = TaskAbortFlag s"
  "AmSlewing (acquireFramehandler fr s) = AmSlewing s"
  "subscribers (acquireFramehandler fr s) = subscribers s"
  "log (acquireFramehandler fr s) = log s"
  "BumpSlew (acquireFramehandler fr s) = BumpSlew s"
  by (simp_all add: acquireFramehandler_def Let_def split: option.splits)

lemma acquire_pow_fields:
  "TaskAbortFlag ((acquireFramehandler fr ^^ n) s) = TaskAbortFlag s"
  "AmSlewing ((acquireFramehandler fr ^^ n) s) = AmSlewing s"
  "subscribers ((acquireFramehandler fr ^^ n) s) = subscribers s"
  "log ((acquireFramehandler fr ^^ n) s) = log s"
  by (induction n) (simp_all add: acquire_fields)



lemma slewing_happen:
  "AmSlewing s \<Longrightarrow>
     AmSlewing (happen e s) \<and> log (happen e s) = log s \<and> subscribers (happen e s) = subscribers s"
  by (cases e)
     (simp_all add: acquire_pow_fields DoAbort_def DoBumpL_def DoBumpLFast_def DoBumpR_def
        DoBumpRFast_def bump_request_fields)










text \<open>What a call of \<^verbatim>\<open>SlewPastLimb\<close> that returns has done.\<close>

lemma slewing_time_time:
  "time_time es s = Some (t, es', s') \<Longrightarrow> AmSlewing s \<Longrightarrow>
     AmSlewing s' \<and> log s' = log s \<and> subscribers s' = subscribers s"
proof (induction es arbitrary: s)
  case Nil
  then show ?case by simp
next
  case (Cons e es)
  show ?case
  proof (cases "\<exists>u. e = Clock u")
    case True
    with Cons.prems show ?thesis by auto
  next
    case False
    then have "time_time (e # es) s = time_time es (happen e s)" by (cases e) simp_all
    with Cons.prems have "time_time es (happen e s) = Some (t, es', s')" by simp
    from Cons.IH[OF this] slewing_happen[OF Cons.prems(2), of e] show ?thesis by simp
  qed
qed

lemma finish_returns:
  assumes "SlewPastLimb_finish p es s = Returns b es' s'"
  shows "b = EdgePassed s \<and> es' = es \<and> subscribers s' = subscribers s - 1 \<and>
         TaskAbortFlag s' = TaskAbortFlag s \<and> \<not> AmSlewing s' \<and>
         log s' = log s @
           (if EdgePassed s then [MoveAxis (AxisToMove s) p, Sleep (SlewPad s), MoveAxis (AxisToMove s) 0]
            else []) @ pending_bump s"
  using assms
  by (auto simp: SlewPastLimb_finish_def Let_def sleep_def say_def DoBumpSlew_def pending_bump_def
      split: if_splits)

lemma wait_returns:
  assumes "SlewPastLimb_wait rate p st es s = Returns b es' s'" and "AmSlewing s"
  shows "subscribers s' = (if TaskAbortFlag s' \<and> \<not> b then subscribers s else subscribers s - 1) \<and>
         (b \<longrightarrow> (\<exists>before s1.
                 log s' = before @ [MoveAxis (AxisToMove s) p, Sleep (SlewPad s), MoveAxis (AxisToMove s) 0]
                            @ pending_bump s1))"
  using assms
proof (induction rate p st es s rule: SlewPastLimb_wait.induct)
  case (1 rate pad_rate startTime es s)
  show ?case
  proof (cases "EdgePassed s")
    case True
    with "1.prems" have "SlewPastLimb_finish pad_rate es s = Returns b es' s'"
      by (simp add: SlewPastLimb_wait.simps)
    from finish_returns[OF this] True show ?thesis by auto
  next
    case False
    then obtain endTime es1 s1 where tt: "time_time es s = Some (endTime, es1, s1)"
      using "1.prems" by (auto simp: SlewPastLimb_wait.simps split: option.splits)
    note k = slewing_time_time[OF tt "1.prems"(2)]
    have f1: "fixed s1 = fixed s" using tt by (rule fixed_time_time)
    then have ax: "AxisToMove s1 = AxisToMove s" "SlewPad s1 = SlewPad s" by (simp_all add: fixed_def)
    show ?thesis
    proof (cases "TaskAbortFlag s1")
      case True
      with False tt "1.prems" k show ?thesis by (simp add: SlewPastLimb_wait.simps)
    next
      case na: False
      show ?thesis
      proof (cases "endTime - startTime > 30")
        case True
        let ?s2 = "limb_timeout rate (endTime - startTime) s1"
        have s2: "AxisToMove ?s2 = AxisToMove s" "SlewPad ?s2 = SlewPad s" "EdgePassed ?s2 = EdgePassed s1"
          "TaskAbortFlag ?s2 = TaskAbortFlag s1" "subscribers ?s2 = subscribers s"
          using ax k by (simp_all add: limb_timeout_def Let_def say_def)
        from True False tt na "1.prems"
        have "SlewPastLimb_finish pad_rate es1 ?s2 = Returns b es' s'"
          by (simp add: SlewPastLimb_wait.simps)
        from finish_returns[OF this] na show ?thesis
          unfolding s2 by auto
      next
        case nt: False
        with False tt na "1.prems" have "SlewPastLimb_wait rate pad_rate startTime es1 s1 = Returns b es' s'"
          by (simp add: SlewPastLimb_wait.simps)
        from "1.IH"[OF False tt refl refl na nt this] k ax show ?thesis by simp
      qed
    qed
  qed
qed

text \<open>
  Claim C4: when the edge is detected, the mount is moved for \<open>SlewPad\<close> more seconds at
  the magnitude of the slew factor with the sign of \<open>rate\<close>, and then stopped.

  What every call that returns true commands after the loop: the pad at the slew factor
  as it stands, whatever the sign of \<open>rate\<close>, then the sleep and the stop, then a
  pending bump if there is one. In the run below the slew factor is \<open>-1/2\<close> and the
  slew runs at \<open>rate = 1/2\<close>, as the first slew of \<^verbatim>\<open>DoGo\<close> does: the pad is commanded at
  \<open>-1/2\<close>, against the direction of the slew, where \<open>copysign (-1/2) (1/2) = 1/2\<close>.
\<close>

theorem SlewPastLimb_pad:
  assumes "SlewPastLimb rate es s = Returns True es' s'"
  shows "\<exists>before s1.
           log s' = before @
             [MoveAxis (AxisToMove s) (SlewFactor s), Sleep (SlewPad s), MoveAxis (AxisToMove s) 0] @
             pending_bump s1"
proof -
  let ?b = "SlewPastLimb_begin s"
  from assms obtain st es1 s1 where tt: "time_time es ?b = Some (st, es1, s1)"
    and w: "SlewPastLimb_wait rate (SlewFactor s) st es1 (say (MoveAxis (AxisToMove s1) rate) s1) =
              Returns True es' s'"
    by (auto simp: SlewPastLimb_def Let_def split: option.splits)
  have b: "AmSlewing ?b" "fixed ?b = fixed s"
    by (simp_all add: SlewPastLimb_begin_def Let_def fixed_def)
  from fixed_time_time[OF tt] b have f: "AxisToMove s1 = AxisToMove s" "SlewPad s1 = SlewPad s"
    by (simp_all add: fixed_def)
  from slewing_time_time[OF tt b(1)]
  have s1: "AmSlewing (say (MoveAxis (AxisToMove s1) rate) s1)"
    by (simp add: say_def)
  from wait_returns[OF w s1] f show ?thesis by (simp add: say_def)
qed


theorem SlewPastLimb_pad_witness:
  "(case SlewPastLimb (1 / 2)
          [Clock 0, FrameCaptured (Some (flat_frame 65535)), FrameCaptured (Some (flat_frame 0)),
           Clock 1]
          ((SHGForm 1000 1000 (ForSiderealRate 1))\<lparr>SlewFactor := - 1 / 2, FrameInterval := 0\<rparr>) of
      Returns b es s \<Rightarrow>
        b \<and> log s = [MoveAxis 0 (1 / 2), MoveAxis 0 (- 1 / 2), Sleep (1 / 2), MoveAxis 0 0]
    | _ \<Rightarrow> False) \<and>
   copysign (- 1 / 2) (1 / 2) = 1 / 2"
proof -
  let ?es = "[Clock 0, FrameCaptured (Some (flat_frame 65535)), FrameCaptured (Some (flat_frame 0)),
           Clock 1]"
  let ?s = "(SHGForm 1000 1000 (ForSiderealRate 1))\<lparr>SlewFactor := - 1 / 2, FrameInterval := 0\<rparr>"
  have run: "case SlewPastLimb (1 / 2) ?es ?s of
      Returns b es s \<Rightarrow>
        b \<and> log s = [MoveAxis 0 (1 / 2), MoveAxis 0 (- 1 / 2), Sleep (1 / 2), MoveAxis 0 0]
    | _ \<Rightarrow> False"
    by code_simp
  then obtain es' s' where r: "SlewPastLimb (1 / 2) ?es ?s = Returns True es' s'"
    by (auto split: outcome.splits)
  have c: "copysign (- 1 / 2) (1 / 2) = 1 / 2" by (simp add: copysign_def)
  from SlewPastLimb_pad[OF r] have "\<exists>before s1. log s' = before @
      [MoveAxis (AxisToMove ?s) (SlewFactor ?s), Sleep (SlewPad ?s), MoveAxis (AxisToMove ?s) 0] @
      pending_bump s1" .
  with run c show ?thesis by simp
qed





text \<open>
  Claim C9: the handler attached at the start of \<^verbatim>\<open>SlewPastLimb\<close> is detached on every
  way out: edge detected, timeout, abort.

  For every call that returns: the handler is detached, except when the call returns
  false with the abort flag up. That is the return from inside the loop, on line 405,
  which comes before the detaching on line 414. In the runs below, from a form with no
  handler attached, the call that detects the edge and the call that times out return
  with none attached, the call that sees the abort flag with one.
\<close>

theorem SlewPastLimb_subscription:
  assumes "SlewPastLimb rate es s = Returns b es' s'"
  shows "subscribers s' = (if TaskAbortFlag s' \<and> \<not> b then Suc (subscribers s) else subscribers s)"
proof -
  let ?b = "SlewPastLimb_begin s"
  from assms obtain st es1 s1 where tt: "time_time es ?b = Some (st, es1, s1)"
    and w: "SlewPastLimb_wait rate (SlewFactor s) st es1 (say (MoveAxis (AxisToMove s1) rate) s1) =
              Returns b es' s'"
    by (auto simp: SlewPastLimb_def Let_def split: option.splits)
  have b: "AmSlewing ?b" "subscribers ?b = Suc (subscribers s)"
    by (simp_all add: SlewPastLimb_begin_def Let_def)
  from slewing_time_time[OF tt b(1)] b
  have s1: "AmSlewing (say (MoveAxis (AxisToMove s1) rate) s1)"
    "subscribers (say (MoveAxis (AxisToMove s1) rate) s1) = Suc (subscribers s)"
    by (simp_all add: say_def)
  from wait_returns[OF w s1(1)] s1(2) show ?thesis by simp
qed


theorem SlewPastLimb_subscription_witness:
  "(case SlewPastLimb 1
          [Clock 0, FrameCaptured (Some (flat_frame 65535)), FrameCaptured (Some (flat_frame 0)),
           Clock 1]
          ((SHGForm 1000 1000 (ForSiderealRate 1))\<lparr>FrameInterval := 0\<rparr>) of
      Returns b es s \<Rightarrow> b \<and> subscribers s = 0
    | _ \<Rightarrow> False) \<and>
   (case SlewPastLimb 1 [Clock 0, Clock 31] (SHGForm 1000 1000 (ForSiderealRate 1)) of
      Returns b es s \<Rightarrow> \<not> b \<and> subscribers s = 0
    | _ \<Rightarrow> False) \<and>
   (case SlewPastLimb 1 [Clock 0, AbortClick, Clock 1] (SHGForm 1000 1000 (ForSiderealRate 1)) of
      Returns b es s \<Rightarrow> \<not> b \<and> TaskAbortFlag s \<and> subscribers s = 1
    | _ \<Rightarrow> False)"
proof -
  let ?s = "SHGForm 1000 1000 (ForSiderealRate 1)"
  have others: "(case SlewPastLimb 1
          [Clock 0, FrameCaptured (Some (flat_frame 65535)), FrameCaptured (Some (flat_frame 0)),
           Clock 1]
          (?s\<lparr>FrameInterval := 0\<rparr>) of
      Returns b es s \<Rightarrow> b \<and> subscribers s = 0
    | _ \<Rightarrow> False) \<and>
   (case SlewPastLimb 1 [Clock 0, Clock 31] ?s of
      Returns b es s \<Rightarrow> \<not> b \<and> subscribers s = 0
    | _ \<Rightarrow> False)"
    by code_simp
  have run: "case SlewPastLimb 1 [Clock 0, AbortClick, Clock 1] ?s of
      Returns b es s \<Rightarrow> \<not> b \<and> TaskAbortFlag s
    | _ \<Rightarrow> False"
    by code_simp
  then obtain es' s' where r: "SlewPastLimb 1 [Clock 0, AbortClick, Clock 1] ?s = Returns False es' s'"
    and f: "TaskAbortFlag s'"
    by (auto split: outcome.splits)
  have v: "subscribers ?s = 0" by (simp add: SHGForm_def)
  from SlewPastLimb_subscription[OF r] f v have "subscribers s' = 1" by simp
  with others r f show ?thesis by simp
qed

subsection \<open>Abort\<close>

text \<open>\<^verbatim>\<open>DoGo\<close> returns early only through \<^verbatim>\<open>DoAbortTask\<close>.\<close>

lemma fixed_DoGo_back: "DoGo_back es s = Returns b es' s' \<Longrightarrow> fixed s' = fixed s"
  by (auto simp: DoGo_back_def split: if_splits outcome.splits dest!: fixed_SlewPastLimb)

lemma fixed_sleep: "sleep d s = Inr s' \<Longrightarrow> fixed s' = fixed s"
  by (auto simp: sleep_def split: if_splits)

lemma DoGo_loop_abort:
  "DoGo_loop n st et es s = Returns None es' s' \<Longrightarrow>
     \<exists>s0. s' = DoAbortTask s0 \<and> fixed s0 = fixed s"
proof (induction n arbitrary: st et es s)
  case 0
  then show ?case by simp
next
  case (Suc n)
  from Suc.prems obtain startTime es1 s1 where t1: "time_time es s = Some (startTime, es1, s1)"
    by (auto split: option.splits)
  note f1 = fixed_time_time[OF t1]
  from Suc.prems t1 obtain b es2 s2 where
    sl: "SlewPastLimb (SlewFactor s1) es1 (say RunCapture (say PrepareToCapture s1)) = Returns b es2 s2"
    by (auto split: outcome.splits)
  from fixed_SlewPastLimb[OF sl] f1 have f2: "fixed s2 = fixed s" by simp
  from Suc.prems t1 sl obtain endTime es3 s3 where
    t2: "time_time es2 (say StopCapture s2) = Some (endTime, es3, s3)"
    by (auto split: option.splits)
  from fixed_time_time[OF t2] f2 have f3: "fixed s3 = fixed s" by simp
  show ?case
  proof (cases "TaskAbortFlag s3")
    case True
    with Suc.prems t1 sl t2 have "s' = DoAbortTask s3" by simp
    with f3 show ?thesis by blast
  next
    case na: False
    with Suc.prems t1 sl t2 obtain b' es4 s4 where bk: "DoGo_back es3 s3 = Returns b' es4 s4"
      by (auto split: outcome.splits)
    from fixed_DoGo_back[OF bk] f3 have f4: "fixed s4 = fixed s" by simp
    show ?thesis
    proof (cases "TaskAbortFlag s4")
      case True
      with Suc.prems t1 sl t2 na bk have "s' = DoAbortTask s4" by simp
      with f4 show ?thesis by blast
    next
      case False
      with Suc.prems t1 sl t2 na bk obtain d s5 where
        "sleep d s4 = Inr s5"
        "DoGo_loop n (Some startTime) (Some endTime) es4 (say (ProgBarIncrement 1) s5) = Returns None es' s'"
        by (auto split: option.splits sum.splits)
      from Suc.IH[OF this(2)] fixed_sleep[OF this(1)] f4 show ?thesis by simp
    qed
  qed
qed

lemma DoAbortTask_state:
  "BumpSlew (DoAbortTask s) = - 1" "\<not> TaskAbortFlag (DoAbortTask s)" "\<not> AmSlewing (DoAbortTask s)"
  "SelectedRate (DoAbortTask s) = SelectedRate s"
  "log (DoAbortTask s) = log s @ [StopCapture, MoveAxis (AxisToMove s) 0, SetSelectedRate (ForSiderealRate 32),
      SlewTo (SavedCoords s), SetSelectedRate (SelectedRate s), EnableGo]"
  by (simp_all add: DoAbortTask_def RestorePos_def enableGo_def say_def Let_def)

text \<open>
  Claim C1: after an abort at any cycle the capture is stopped, the scan axis is at
  rate 0, the mount has been sent back to the saved coordinates (selected rate saved,
  fast rate set, slew, selected rate restored), \<open>AmSlewing\<close> is false, no bump is
  pending (\<open>BumpSlew = 0\<close>) and the abort flag is cleared.

  Every run that ends by an abort, before or during any cycle, ends with these commands
  and this state, except for the bump: line 548 stores \<open>-1\<close> in \<open>BumpSlew\<close>, and
  \<^verbatim>\<open>SlewPastLimb\<close> takes every value other than 0 for a pending bump. The run below, of
  the default 15 cycles, is aborted during the capture of its first cycle.
\<close>

theorem DoGo_abort_recovery:
  assumes "DoGo c es s = Returns AbortHandled es' s'"
  shows "(\<exists>before. log s' = before @
            [StopCapture, MoveAxis (AxisToMove s) 0, SetSelectedRate (ForSiderealRate 32),
             SlewTo (Some c), SetSelectedRate (SelectedRate s), EnableGo]) \<and>
         SelectedRate s' = SelectedRate s \<and> \<not> AmSlewing s' \<and> \<not> TaskAbortFlag s' \<and>
         BumpSlew s' = - 1"
proof -
  have fs: "fixed (SavePos c s) = (NumCycles s, Some c, SelectedRate s, AxisToMove s, SlewFactor s,
      SlewPad s, Bidirectional s, cycleSleep_Text s)"
    by (simp add: fixed_def SavePos_def)
  have "\<exists>s0. s' = DoAbortTask s0 \<and> fixed s0 = fixed (SavePos c s)"
  proof (cases "SlewPastLimb (- SlewFactor (SavePos c s)) es (SavePos c s)")
    case (Returns b es1 s1)
    note f1 = fixed_SlewPastLimb[OF Returns]
    show ?thesis
    proof (cases "TaskAbortFlag s1")
      case True
      with assms Returns have "s' = DoAbortTask s1" by (simp add: DoGo_def)
      with f1 show ?thesis by blast
    next
      case False
      with assms Returns have
        "DoGo_loop (nat (NumCycles s1)) None None es1 (say (ProgBarValue 1) s1) = Returns None es' s'"
        by (auto simp: DoGo_def DoGo_reposition_def Let_def
            split: outcome.splits option.splits sum.splits)
      from DoGo_loop_abort[OF this] f1 show ?thesis by simp
    qed
  next
    case (Raises e s1)
    with assms show ?thesis by (simp add: DoGo_def)
  next
    case Blocked
    with assms show ?thesis by (simp add: DoGo_def)
  qed
  then obtain s0 where s': "s' = DoAbortTask s0" and f: "fixed s0 = fixed (SavePos c s)" by blast
  from f fs have "SavedCoords s0 = Some c" "SelectedRate s0 = SelectedRate s" "AxisToMove s0 = AxisToMove s"
    by (simp_all add: fixed_def)
  then show ?thesis
    unfolding s' by (simp add: DoAbortTask_state)
qed

theorem DoGo_abort_recovery_witness:
  "(case DoGo (3, 4)
          [Clock 0, FrameCaptured (Some (flat_frame 65535)), FrameCaptured (Some (flat_frame 0)),
           Clock 1, Clock 2, Clock 3, AbortClick, Clock 4, Clock 5]
          ((SHGForm 1000 1000 (ForSiderealRate 1))\<lparr>SlewFactor := - 1 / 2, FrameInterval := 0\<rparr>) of
      Returns how es s \<Rightarrow>
        how = AbortHandled \<and>
        log s =
          [MoveAxis 0 (1 / 2), MoveAxis 0 (- 1 / 2), Sleep (1 / 2), MoveAxis 0 0, ProgBarValue 1,
           PrepareToCapture, RunCapture, MoveAxis 0 (- 1 / 2), StopCapture,
           StopCapture, MoveAxis 0 0, SetSelectedRate (ForSiderealRate 32), SlewTo (Some (3, 4)),
           SetSelectedRate (ForSiderealRate 1), EnableGo] \<and>
        SelectedRate s = ForSiderealRate 1 \<and>
        \<not> AmSlewing s \<and> \<not> TaskAbortFlag s \<and> BumpSlew s = - 1 \<and> BumpSlew s \<noteq> 0
    | _ \<Rightarrow> False)"
proof -
  let ?es = "[Clock 0, FrameCaptured (Some (flat_frame 65535)), FrameCaptured (Some (flat_frame 0)),
           Clock 1, Clock 2, Clock 3, AbortClick, Clock 4, Clock 5]"
  let ?s = "(SHGForm 1000 1000 (ForSiderealRate 1))\<lparr>SlewFactor := - 1 / 2, FrameInterval := 0\<rparr>"
  have run: "case DoGo (3, 4) ?es ?s of
      Returns how es s \<Rightarrow>
        how = AbortHandled \<and>
        log s =
          [MoveAxis 0 (1 / 2), MoveAxis 0 (- 1 / 2), Sleep (1 / 2), MoveAxis 0 0, ProgBarValue 1,
           PrepareToCapture, RunCapture, MoveAxis 0 (- 1 / 2), StopCapture,
           StopCapture, MoveAxis 0 0, SetSelectedRate (ForSiderealRate 32), SlewTo (Some (3, 4)),
           SetSelectedRate (ForSiderealRate 1), EnableGo]
    | _ \<Rightarrow> False"
    by code_simp
  then obtain es' s' where r: "DoGo (3, 4) ?es ?s = Returns AbortHandled es' s'"
    by (auto split: outcome.splits)
  have v: "SelectedRate ?s = ForSiderealRate 1" by (simp add: SHGForm_def)
  show ?thesis
    using run r DoGo_abort_recovery[OF r] v by simp
qed


subsection \<open>The run without cycles\<close>

text \<open>
  Claim C10: \<^verbatim>\<open>DoGo\<close> completes its reposition only when \<open>NumCycles\<close> is at least 1. With
  no cycle to run and no abort, the loop never assigns \<^verbatim>\<open>startTime\<close> and \<^verbatim>\<open>endTime\<close>, and the
  reposition raises on them, after it has set the axis moving and before it stops it.
\<close>

theorem DoGo_without_cycles:
  assumes "NumCycles s \<le> 0"
  shows "(\<forall>es' s'. DoGo c es s \<noteq> Returns AllCycles es' s') \<and>
         (\<forall>b es1 s1. SlewPastLimb (- SlewFactor s) es (SavePos c s) = Returns b es1 s1 \<and> \<not> TaskAbortFlag s1 \<longrightarrow>
            DoGo c es s = Raises UnboundLocalError
              (say (MoveAxis (AxisToMove s1) (SlewFactor s1)) (say (ProgBarValue 1) s1)))"
proof (cases "SlewPastLimb (- SlewFactor s) es (SavePos c s)")
  case (Returns b es1 s1)
  from fixed_SlewPastLimb[OF this] have "NumCycles s1 = NumCycles s"
    by (simp add: fixed_def SavePos_def)
  with assms have n: "nat (NumCycles s1) = 0" by simp
  show ?thesis
    using Returns n
    by (simp add: DoGo_def fixed_SavePos DoGo_reposition_def say_def)
next
  case (Raises e s')
  then show ?thesis by (simp add: DoGo_def fixed_SavePos)
next
  case Blocked
  then show ?thesis by (simp add: DoGo_def fixed_SavePos)
qed

theorem DoGo_without_cycles_witness:
  "NumCycles ((SHGForm 1000 1000 (ForSiderealRate 1))\<lparr>NumCycles := 0, FrameInterval := 0\<rparr>) \<le> 0 \<and>
   (case DoGo (3, 4)
        [Clock 0, FrameCaptured (Some (flat_frame 65535)), FrameCaptured (Some (flat_frame 0)), Clock 1]
        ((SHGForm 1000 1000 (ForSiderealRate 1))\<lparr>NumCycles := 0, FrameInterval := 0\<rparr>) of
      Raises e s' \<Rightarrow> e = UnboundLocalError \<and>
         log s' = [MoveAxis 0 (- 1), MoveAxis 0 1, Sleep (1 / 2), MoveAxis 0 0, ProgBarValue 1, MoveAxis 0 1]
    | _ \<Rightarrow> False)"
proof -
  let ?s = "(SHGForm 1000 1000 (ForSiderealRate 1))\<lparr>NumCycles := 0, FrameInterval := 0\<rparr>"
  let ?es = "[Clock 0, FrameCaptured (Some (flat_frame 65535)), FrameCaptured (Some (flat_frame 0)), Clock 1]"
  have h: "NumCycles ?s \<le> 0" by simp
  have pre: "case SlewPastLimb (- SlewFactor ?s) ?es (SavePos (3, 4) ?s) of
               Returns b es1 s1 \<Rightarrow> \<not> TaskAbortFlag s1 \<and>
                 log s1 = [MoveAxis 0 (- 1), MoveAxis 0 1, Sleep (1 / 2), MoveAxis 0 0] \<and>
                 AxisToMove s1 = 0 \<and> SlewFactor s1 = 1
             | _ \<Rightarrow> False"
    by code_simp
  show ?thesis
    using h pre DoGo_without_cycles[OF h, of "(3, 4)" ?es]
    by (auto split: outcome.splits simp: say_def)
qed


subsection \<open>Scan parameters\<close>




subsection \<open>Measuring the sun\<close>

text \<open>The mean of a window over a band, and the edge each scan stops at.\<close>

lemma band_rect_mean:
  assumes "0 < w'" "0 < h"
  shows "rect_mean (band a w B) (x, y, w', h) =
           B * real (nat (min (x + w') (a + w) - max x a)) / real_of_int w'"
proof -
  have inner: "(\<Sum>j = y..<y + h. band a w B i j) = real_of_int h * (if i \<in> {a..<a + w} then B else 0)" for i
    using assms by (simp add: band_def)
  have inter: "{x..<x + w'} \<inter> {a..<a + w} = {max x a..<min (x + w') (a + w)}"
    by auto
  have s1: "(\<Sum>i = x..<x + w'. \<Sum>j = y..<y + h. band a w B i j) =
          real_of_int h * (\<Sum>i = x..<x + w'. if i \<in> {a..<a + w} then B else 0)"
    unfolding inner by (rule sum_distrib_left[symmetric])
  have s2: "(\<Sum>i = x..<x + w'. if i \<in> {a..<a + w} then B else 0) =
          (\<Sum>i \<in> {x..<x + w'} \<inter> {a..<a + w}. B)"
    by (rule sum.inter_restrict[symmetric]) simp
  have s3: "(\<Sum>i \<in> {x..<x + w'} \<inter> {a..<a + w}. B) = real (nat (min (x + w') (a + w) - max x a)) * B"
    unfolding inter by simp
  show ?thesis
    using assms unfolding rect_mean_def prod.case s1 s2 s3 by simp
qed

lemma scan_start_first:
  assumes "x0 \<le> e" "e < imgWidth"
    and "\<forall>x. x0 \<le> x \<and> x < e \<longrightarrow> cut_mean f (x, 0, 10, 100) < thr"
    and "\<not> cut_mean f (e, 0, 10, 100) < thr"
  shows "scan_start f thr imgWidth x0 = e"
  using assms
proof (induction "nat (e - x0)" arbitrary: x0)
  case 0
  then have "x0 = e" by simp
  with 0 show ?case by (simp add: scan_start.simps)
next
  case (Suc n)
  then have lt: "x0 < e" by linarith
  with Suc.prems have dark: "cut_mean f (x0, 0, 10, 100) < thr" by simp
  have "scan_start f thr imgWidth (x0 + 1) = e"
    using Suc.hyps(1)[of "x0 + 1"] Suc.hyps(2) Suc.prems lt by simp
  with dark lt Suc.prems(2) show ?case
    by (subst scan_start.simps) simp
qed

lemma scan_end_first:
  assumes "e \<le> x0" "0 \<le> e"
    and "\<forall>x. e < x \<and> x \<le> x0 \<longrightarrow> cut_mean f (x, 0, 10, 100) < thr"
    and "\<not> cut_mean f (e, 0, 10, 100) < thr"
  shows "scan_end f thr x0 = e"
  using assms
proof (induction "nat (x0 - e)" arbitrary: x0)
  case 0
  then have "x0 = e" by simp
  with 0 show ?case by (simp add: scan_end.simps)
next
  case (Suc n)
  then have lt: "e < x0" by linarith
  with Suc.prems have dark: "cut_mean f (x0, 0, 10, 100) < thr" by simp
  have "scan_end f thr (x0 - 1) = e"
    using Suc.hyps(1)[of "x0 - 1"] Suc.hyps(2) Suc.prems lt by simp
  with dark lt Suc.prems(2) show ?case
    by (subst scan_end.simps) simp
qed

lemma band_edges:
  assumes w: "20 \<le> w"
    and k: "1 \<le> k" "k \<le> 10"
    and lo: "B * real_of_int (k - 1) / 10 < thr" and hi: "thr \<le> B * real_of_int k / 10"
    and left: "10 - k < a" and right: "a + w + 10 - k \<le> W"
  shows "scan_start (frame_of W H (band a w B)) thr (W - 10) 0 = a - 10 + k"
    and "scan_end (frame_of W H (band a w B)) thr (W - 10) = a + w - k"
proof -
  let ?f = "frame_of W H (band a w B)"
  have Bpos: "0 < B"
  proof (rule ccontr)
    assume "\<not> 0 < B"
    then have "B \<le> 0" by simp
    have "B * real_of_int k \<le> B * real_of_int (k - 1)"
      using \<open>B \<le> 0\<close> by (intro mult_left_mono_neg) simp_all
    with lo hi show False by simp
  qed
  have cm: "cut_mean ?f (x, 0, 10, 100) = B * real (nat (min (x + 10) (a + w) - max x a)) / 10" for x
    using band_rect_mean[of 10 100 a w B x 0] by (simp add: frame_of_def)
  have below: "cut_mean ?f (x, 0, 10, 100) < thr" if "nat (min (x + 10) (a + w) - max x a) \<le> nat (k - 1)" for x
  proof -
    have "real (nat (min (x + 10) (a + w) - max x a)) \<le> real (nat (k - 1))" using that by simp
    also have "\<dots> = real_of_int (k - 1)" using k by simp
    finally have "B * real (nat (min (x + 10) (a + w) - max x a)) \<le> B * real_of_int (k - 1)"
      using Bpos by simp
    with lo show ?thesis by (simp add: cm)
  qed
  have at: "\<not> cut_mean ?f (x, 0, 10, 100) < thr" if "nat (min (x + 10) (a + w) - max x a) = nat k" for x
  proof -
    have "real (nat (min (x + 10) (a + w) - max x a)) = real_of_int k" using that k by simp
    with hi show ?thesis by (simp add: cm)
  qed
  show "scan_start ?f thr (W - 10) 0 = a - 10 + k"
  proof (rule scan_start_first)
    show "0 \<le> a - 10 + k" using left by simp
    show "a - 10 + k < W - 10" using right w k by simp
    show "\<forall>x. 0 \<le> x \<and> x < a - 10 + k \<longrightarrow> cut_mean ?f (x, 0, 10, 100) < thr"
      using w k by (auto intro!: below)
    show "\<not> cut_mean ?f (a - 10 + k, 0, 10, 100) < thr"
      using w k by (intro at) (simp add: min_def max_def)
  qed
  show "scan_end ?f thr (W - 10) = a + w - k"
  proof (rule scan_end_first)
    show "a + w - k \<le> W - 10" using right by simp
    show "0 \<le> a + w - k" using left w k by simp
    show "\<forall>x. a + w - k < x \<and> x \<le> W - 10 \<longrightarrow> cut_mean ?f (x, 0, 10, 100) < thr"
      using w k by (auto intro!: below)
    show "\<not> cut_mean ?f (a + w - k, 0, 10, 100) < thr"
      using w k by (intro at) (simp add: min_def max_def)
  qed
qed


lemma measure_band:
  assumes "ROI_Width s = W"
    and "20 \<le> w" and "1 \<le> k" and "k \<le> 10"
    and "B * real_of_int (k - 1) / 10 < LimbThreshold s"
    and "LimbThreshold s \<le> B * real_of_int k / 10"
    and "10 - k < a" and "a + w + 10 - k \<le> W"
    and "LimbThreshold s \<le> stats_mean (frame_of W H (band a w B))"
  shows "SunWidth (measureSunFramehandler (frame_of W H (band a w B)) s) = w + 10 - 2 * k"
    and "SunDecenter (measureSunFramehandler (frame_of W H (band a w B)) s) =
           (real_of_int a + real_of_int w / 2 - real_of_int W / 2) - 5"
proof -
  note e = band_edges[OF assms(2-8), of H]
  have pos: "0 < a - 10 + k" "0 < a + w - k" using assms by simp_all
  show "SunWidth (measureSunFramehandler (frame_of W H (band a w B)) s) = w + 10 - 2 * k"
    using assms(1,9) pos by (simp add: measureSunFramehandler_def Let_def e)
  show "SunDecenter (measureSunFramehandler (frame_of W H (band a w B)) s) =
           (real_of_int a + real_of_int w / 2 - real_of_int W / 2) - 5"
    using assms(1,9) pos by (simp add: measureSunFramehandler_def Let_def e field_simps)
qed

text \<open>
  Claim C6, as the code has it. On a frame whose mean is not below the threshold the
  handler takes for \<open>startEdge\<close> the first window from the left whose mean is not below
  the threshold and for \<open>endEdge\<close> the first one from the right; when both are above 0
  the width is \<open>endEdge - startEdge\<close> and the decenter
  \<open>(width / 2 + startEdge) - imageWidth / 2\<close>, and otherwise the width is 2300.

  For a band of width \<open>w\<close>, at least 20, that starts at column \<open>a\<close>, clear of both sides
  of the frame, where a window needs \<open>k\<close> of its 10 columns bright to reach the
  threshold: the edges are \<open>a - 10 + k\<close> and \<open>a + w - k\<close>, so the width found is
  \<open>w + 10 - 2 * k\<close>, which is \<open>w\<close> for \<open>k = 5\<close> only, and the decenter found is 5
  less than that of the band, whatever \<open>k\<close> is.
\<close>

theorem measureSunFramehandler_width:
  assumes "20 \<le> w" and "1 \<le> k" and "k \<le> 10"
    and "B * real_of_int (k - 1) / 10 < LimbThreshold s"
    and "LimbThreshold s \<le> B * real_of_int k / 10"
    and "10 - k < a" and "a + w + 10 - k \<le> ROI_Width s"
    and "LimbThreshold s \<le> stats_mean (frame_of (ROI_Width s) H (band a w B))"
  shows "(\<forall>f. LimbThreshold s \<le> stats_mean f \<longrightarrow>
            (let startEdge = scan_start f (LimbThreshold s) (ROI_Width s - 10) 0;
                 endEdge = scan_end f (LimbThreshold s) (ROI_Width s - 10);
                 s' = measureSunFramehandler f s
             in if 0 < startEdge \<and> 0 < endEdge
                then SunWidth s' = endEdge - startEdge \<and>
                     SunDecenter s' =
                       (real_of_int (SunWidth s') / 2 + real_of_int startEdge)
                         - real_of_int (ROI_Width s) / 2
                else SunWidth s' = DEFAULT_SUN_WIDTH)) \<and>
         SunWidth (measureSunFramehandler (frame_of (ROI_Width s) H (band a w B)) s) = w + 10 - 2 * k \<and>
         SunDecenter (measureSunFramehandler (frame_of (ROI_Width s) H (band a w B)) s) =
           (real_of_int a + real_of_int w / 2 - real_of_int (ROI_Width s) / 2) - 5"
proof -
  have general: "\<forall>f. LimbThreshold s \<le> stats_mean f \<longrightarrow>
            (let startEdge = scan_start f (LimbThreshold s) (ROI_Width s - 10) 0;
                 endEdge = scan_end f (LimbThreshold s) (ROI_Width s - 10);
                 s' = measureSunFramehandler f s
             in if 0 < startEdge \<and> 0 < endEdge
                then SunWidth s' = endEdge - startEdge \<and>
                     SunDecenter s' =
                       (real_of_int (SunWidth s') / 2 + real_of_int startEdge)
                         - real_of_int (ROI_Width s) / 2
                else SunWidth s' = DEFAULT_SUN_WIDTH)"
    by (simp add: measureSunFramehandler_def Let_def)
  show ?thesis
    using general measure_band[OF refl assms] by blast
qed

theorem measureSunFramehandler_width_witness:
  "LimbThreshold (SHGForm 100 100 (ForSiderealRate 1)) \<le>
     stats_mean (frame_of 100 100 (band 20 60 15000)) \<and>
   SunWidth (measureSunFramehandler (frame_of 100 100 (band 20 60 15000))
     (SHGForm 100 100 (ForSiderealRate 1))) = 60 \<and>
   SunDecenter (measureSunFramehandler (frame_of 100 100 (band 20 60 15000))
     (SHGForm 100 100 (ForSiderealRate 1))) = - 5"
proof -
  let ?s = "SHGForm 100 100 (ForSiderealRate 1)"
  have W: "ROI_Width ?s = 100" and T: "LimbThreshold ?s = 13107 / 2"
    by (simp_all add: SHGForm_def MAX_BRIGHT_def DEFAULT_THRESHOLD_def)
  have m: "stats_mean (frame_of 100 100 (band 20 60 15000)) = 15000 * 60 / 100"
    using band_rect_mean[of 100 100 20 60 15000 0 0] by (simp add: frame_of_def)
  have h8: "LimbThreshold ?s \<le> stats_mean (frame_of (ROI_Width ?s) 100 (band 20 60 15000))"
    by (simp add: W T m)
  have h4: "15000 * real_of_int (5 - 1) / 10 < LimbThreshold ?s" by (simp add: T)
  have h5: "LimbThreshold ?s \<le> 15000 * real_of_int 5 / 10" by (simp add: T)
  have h7: "20 + 60 + 10 - 5 \<le> ROI_Width ?s" by (simp add: W)
  show ?thesis
    using h8 measureSunFramehandler_width[of 60 5 15000 ?s 20 100, OF _ _ _ h4 h5 _ h7 h8]
    by (simp add: W)
qed

text \<open>
  Claim C6 as it is written has the width and the decenter within one pixel. At the
  default threshold, a tenth of \<open>MAX_BRIGHT\<close>, two columns of a band of brightness 60000
  are enough for a window: a band of width 40 in the middle of a frame of width 100 is
  measured as 46 wide and 5 off centre.
\<close>

theorem measureSunFramehandler_width_counterexample:
  "LimbThreshold (SHGForm 100 100 (ForSiderealRate 1)) \<le>
     stats_mean (frame_of 100 100 (band 30 40 60000)) \<and>
   SunWidth (measureSunFramehandler (frame_of 100 100 (band 30 40 60000))
     (SHGForm 100 100 (ForSiderealRate 1))) = 46 \<and>
   SunDecenter (measureSunFramehandler (frame_of 100 100 (band 30 40 60000))
     (SHGForm 100 100 (ForSiderealRate 1))) = - 5 \<and>
   \<not> \<bar>SunWidth (measureSunFramehandler (frame_of 100 100 (band 30 40 60000))
     (SHGForm 100 100 (ForSiderealRate 1))) - 40\<bar> \<le> 1 \<and>
   \<not> \<bar>SunDecenter (measureSunFramehandler (frame_of 100 100 (band 30 40 60000))
     (SHGForm 100 100 (ForSiderealRate 1))) - (30 + 40 / 2 - 100 / 2)\<bar> \<le> 1"
proof -
  let ?s = "SHGForm 100 100 (ForSiderealRate 1)"
  have W: "ROI_Width ?s = 100" and T: "LimbThreshold ?s = 13107 / 2"
    by (simp_all add: SHGForm_def MAX_BRIGHT_def DEFAULT_THRESHOLD_def)
  have m: "stats_mean (frame_of 100 100 (band 30 40 60000)) = 60000 * 40 / 100"
    using band_rect_mean[of 100 100 30 40 60000 0 0] by (simp add: frame_of_def)
  have h9: "LimbThreshold ?s \<le> stats_mean (frame_of 100 100 (band 30 40 60000))"
    by (simp add: T m)
  have h5: "60000 * real_of_int (2 - 1) / 10 < LimbThreshold ?s" by (simp add: T)
  have h6: "LimbThreshold ?s \<le> 60000 * real_of_int 2 / 10" by (simp add: T)
  note r = measure_band[of ?s 100 40 2 60000 30 100, OF W _ _ _ h5 h6 _ _ h9]
  show ?thesis
    using h9 r by simp
qed


text \<open>
  Claim C7: on a frame whose mean is below the threshold the measurement reports that
  the sun is not in the frame and ends without scanning: the result does not depend on
  any window of the frame, and the stored width and decenter stay as they were.
\<close>

theorem measureSunFramehandler_not_in_frame:
  assumes "stats_mean frame0 < LimbThreshold s"
  shows "measureSunFramehandler frame0 s =
           s\<lparr>FrameHandlingDone := True,
             log := log s @ [ShowNotification ''*** Sun is not in frame ***'' Error]\<rparr> \<and>
         SunWidth (measureSunFramehandler frame0 s) = SunWidth s \<and>
         SunDecenter (measureSunFramehandler frame0 s) = SunDecenter s"
  using assms by (simp add: measureSunFramehandler_def say_def)

theorem measureSunFramehandler_not_in_frame_witness:
  "stats_mean (flat_frame 0) < LimbThreshold (SHGForm 1000 1000 (ForSiderealRate 1)) \<and>
   SunWidth (measureSunFramehandler (flat_frame 0) (SHGForm 1000 1000 (ForSiderealRate 1))) = 2300 \<and>
   SunDecenter (measureSunFramehandler (flat_frame 0) (SHGForm 1000 1000 (ForSiderealRate 1))) = 0 \<and>
   log (measureSunFramehandler (flat_frame 0) (SHGForm 1000 1000 (ForSiderealRate 1))) =
     [ShowNotification ''*** Sun is not in frame ***'' Error]"
proof -
  let ?s = "SHGForm 1000 1000 (ForSiderealRate 1)"
  have h: "stats_mean (flat_frame 0) < LimbThreshold ?s"
    by (simp add: flat_frame_def SHGForm_def MAX_BRIGHT_def DEFAULT_THRESHOLD_def)
  have v: "SunWidth ?s = 2300" "SunDecenter ?s = 0" "log ?s = []" by (simp_all add: SHGForm_def)
  show ?thesis
    using h v measureSunFramehandler_not_in_frame[OF h] by simp
qed


subsection \<open>Settings\<close>

text \<open>
  Claim C8: a configuration written to the settings file and read back is the same in
  all nine fields.

  A form with a limb threshold of a quarter of \<open>MAX_BRIGHT\<close>, as read from a file that
  says \<^verbatim>\<open>LimbThreshold=0.25\<close>. \<^verbatim>\<open>saveSettings\<close> writes \<^verbatim>\<open>LimbThreshold=0.10\<close>, the value of the
  module's \<^verbatim>\<open>DEFAULT_THRESHOLD\<close>, and reading the file back gives a tenth of
  \<open>MAX_BRIGHT\<close>. The other eight fields come back as they were.
\<close>

theorem settings_round_trip_loses_threshold:
  "(let s = (SHGForm 1000 1000 (ForSiderealRate 1))
              \<lparr>NumCycles := 7, SunWidth := 2400, CycleSleep := 3 / 4, SlewPad := 5 / 4,
               LimbThreshold := MAX_BRIGHT * (1 / 4), Bidirectional := True, BumpSwap := True,
               BumpRate := 4, AxisToMove := 1\<rparr>;
        s' = fst (getSettings (Some (saveSettings s)) (SHGForm 1000 1000 (ForSiderealRate 1)))
    in saveSettings s =
         ''NumCycles=7'' @ [CHR 0x0A] @ ''SunWidth=2400'' @ [CHR 0x0A] @
         ''CycleSleep=0.75'' @ [CHR 0x0A] @ ''SlewPad=1.25'' @ [CHR 0x0A] @
         ''LimbThreshold=0.10'' @ [CHR 0x0A] @ ''Bidirectional=True'' @ [CHR 0x0A] @
         ''BumpSwap=True'' @ [CHR 0x0A] @ ''BumpRate=4'' @ [CHR 0x0A] @ ''AxisToMove=1'' \<and>
       NumCycles s' = 7 \<and> SunWidth s' = 2400 \<and> CycleSleep s' = 3 / 4 \<and> SlewPad s' = 5 / 4 \<and>
       Bidirectional s' \<and> BumpSwap s' \<and> BumpRate s' = 4 \<and> AxisToMove s' = 1 \<and> log s' = [] \<and>
       LimbThreshold s = 65535 / 4 \<and> LimbThreshold s' = 65535 / 10)"
  by code_simp

end
